theory Spec2Isabelle
  imports Complex_Main
begin

section \<open>The student exam application (exam.py)\<close>

subsection \<open>The Flask session\<close>

text \<open>
  The session is a dictionary; the application only ever uses six keys. A key that is
  absent is \<open>None\<close>. \<open>session.get(k, 0)\<close> is \<open>get0\<close>, and the truth test
  \<open>session.get('student_logged_in')\<close> is \<open>truthy\<close>.
\<close>

record session =
  student_logged_in :: "bool option"
  student_email :: "string option"
  exam_id :: "string option"
  no_face_count :: "int option"
  multiple_face_count :: "int option"
  no_face_warning_count :: "int option"

definition get0 :: "int option \<Rightarrow> int" where
  "get0 v = (case v of None \<Rightarrow> 0 | Some n \<Rightarrow> n)"

definition truthy :: "bool option \<Rightarrow> bool" where
  "truthy v = (case v of None \<Rightarrow> False | Some b \<Rightarrow> b)"

definition session_clear :: "session" where
  "session_clear =
     \<lparr>student_logged_in = None, student_email = None, exam_id = None,
      no_face_count = None, multiple_face_count = None, no_face_warning_count = None\<rparr>"

text \<open>The three \<open>session.pop\<close> calls that end a login.\<close>

definition pop_login :: "session \<Rightarrow> session" where
  "pop_login s = s\<lparr>student_logged_in := None, student_email := None, exam_id := None\<rparr>"

text \<open>The six \<open>session.pop\<close> calls of a successful submission and of a logout.\<close>

definition pop_all :: "session \<Rightarrow> session" where
  "pop_all s = (pop_login s)\<lparr>no_face_count := None, multiple_face_count := None,
                              no_face_warning_count := None\<rparr>"

subsection \<open>Outcomes of the calls to the hosted store\<close>

text \<open>
  Every call to the store is a blocking HTTP request that can answer 200, answer with an
  error status, or raise a \<open>RequestException\<close>. Where the source calls
  \<open>raise_for_status\<close>, the last two are the same \<open>except\<close> branch.
\<close>

datatype http_outcome = OK200 | NotOK | Raised

subsection \<open>The termination ledger (table ExamTerminations)\<close>

text \<open>
  A row is a dictionary too. \<open>terminate_exam\<close> writes the first six columns;
  \<open>is_active\<close> and \<open>removed_at\<close> are the columns the administrator's restore action
  writes (app.py). The object id is the row's position in the append-only table.
  The score is a JSON number, so \<open>float(current_score)\<close> does not raise; times are
  instants on an integer clock.
\<close>

record termination_row =
  t_objectId :: nat
  t_applicantEmail :: "string option"
  t_examId :: "string option"
  terminationReason :: "string option"
  currentScore :: rat
  terminationTime :: int
  isBlocked :: "bool option"
  is_active :: "bool option"
  removed_at :: "int option"

text \<open>
  The where clauses are built with f-strings, so a value that is \<open>None\<close> is searched
  for as the text \<open>None\<close>. A clause \<open>column = 'text'\<close> selects the rows whose column
  holds exactly that text.
\<close>

definition py_str :: "string option \<Rightarrow> string" where
  "py_str v = (case v of None \<Rightarrow> ''None'' | Some x \<Rightarrow> x)"

definition check_active_termination ::
  "http_outcome \<Rightarrow> termination_row list \<Rightarrow> string option \<Rightarrow> string \<Rightarrow> bool" where
  "check_active_termination reply ledger email eid =
     (case reply of
        OK200 \<Rightarrow>
          0 < length (filter (\<lambda>r. t_applicantEmail r = Some (py_str email)
                                  \<and> t_examId r = Some eid \<and> isBlocked r = Some True) ledger)
      | _ \<Rightarrow> False)"

definition terminate_exam ::
  "http_outcome \<Rightarrow> int \<Rightarrow> termination_row list \<Rightarrow> string option \<Rightarrow> string option
     \<Rightarrow> string option \<Rightarrow> rat \<Rightarrow> bool \<times> termination_row list" where
  "terminate_exam reply now ledger email eid violation_type current_score =
     (case reply of
        OK200 \<Rightarrow>
          (True, ledger @
             [\<lparr>t_objectId = length ledger, t_applicantEmail = email, t_examId = eid,
               terminationReason = violation_type, currentScore = current_score,
               terminationTime = now, isBlocked = Some True, is_active = None,
               removed_at = None\<rparr>])
      | _ \<Rightarrow> (False, ledger))"

subsection \<open>The face check (api\_check\_face)\<close>

text \<open>
  The JSON body of a face check. \<open>image_data\<close> defaults to the empty string,
  \<open>is_pre_check\<close> to False and \<open>current_score\<close> to 0.
\<close>

record face_request =
  image_data :: "string option"
  is_pre_check :: "bool option"
  current_score :: "rat option"

text \<open>
  \<open>s.split(sep)[-1]\<close>: the text after the last separator found by the left-to-right
  scan, the whole string when there is none. \<open>piece\<close> is where the current piece starts.
\<close>

function split_last :: "string \<Rightarrow> string \<Rightarrow> string \<Rightarrow> string" where
  "split_last sep piece [] = piece"
| "split_last sep piece (c # cs) =
     (if sep \<noteq> [] \<and> take (length sep) (c # cs) = sep
      then split_last sep (drop (length sep) (c # cs)) (drop (length sep) (c # cs))
      else split_last sep piece cs)"
  by pat_completeness auto
termination
  by (relation "measure (\<lambda>(sep, piece, s). length s)") auto

definition base64_img :: "face_request \<Rightarrow> string" where
  "base64_img data =
     (let raw = (case image_data data of None \<Rightarrow> [] | Some v \<Rightarrow> v)
      in split_last ''base64,'' raw raw)"

text \<open>
  What the \<open>try\<close> block around DeepFace yields for a payload: an exception, or the list of
  detections, each with its confidence when it carries one (\<open>d.get('confidence', 0)\<close>).
  The detector is outside the repository, so it is a parameter of the model.
\<close>

datatype analysis = Analysis_raised | Detections "rat option list"

definition detected_faces_count :: "rat option list \<Rightarrow> nat" where
  "detected_faces_count detections =
     length (filter (\<lambda>d. (case d of None \<Rightarrow> 0 | Some c \<Rightarrow> c) > 8 / 10) detections)"

text \<open>
  The number of faces a tick saw: a failed analysis counts as none, since the
  \<open>except\<close> branch clears both flags.
\<close>

definition faces_seen :: "analysis \<Rightarrow> nat" where
  "faces_seen a = (case a of Analysis_raised \<Rightarrow> 0 | Detections ds \<Rightarrow> detected_faces_count ds)"

text \<open>The pair (\<open>face_detected\<close>, \<open>multiple_faces\<close>) after the \<open>try\<close> block.\<close>

definition classify :: "analysis \<Rightarrow> bool \<times> bool" where
  "classify a =
     (case a of
        Analysis_raised \<Rightarrow> (False, False)
      | Detections ds \<Rightarrow> (detected_faces_count ds = 1, detected_faces_count ds > 1))"

text \<open>
  The messages of the endpoint; the two warnings built with an f-string carry the numbers
  they print (total warnings, seconds left).
\<close>

datatype message =
    Face_Detected
  | Proctoring_ON_Mock
  | Authentication_required
  | No_image_data_received
  | Terminated_multiple_faces_twice
  | Warning_multiple_faces
  | Terminated_face_lost_5_seconds
  | Terminated_5_total_warnings
  | Warning_face_lost int int

text \<open>
  The locals of one tick: the three counters read from the session,
  \<open>should_terminate\<close>, \<open>violation_type\<close> and \<open>message\<close>.
\<close>

record tick_locals =
  l_no_face_count :: int
  l_multiple_face_count :: int
  l_no_face_warning_count :: int
  should_terminate :: bool
  violation_type :: "string option"
  l_message :: message

text \<open>
  The \<open>if face_detected / elif multiple_faces / else\<close> chain of the in-exam branch,
  with the session writes each branch makes.
\<close>

definition decision_table ::
  "bool \<Rightarrow> bool \<Rightarrow> tick_locals \<Rightarrow> session \<Rightarrow> tick_locals \<times> session" where
  "decision_table face_detected multiple_faces l s =
     (if face_detected then
        (l, s\<lparr>no_face_count := Some 0, multiple_face_count := Some 0\<rparr>)
      else if multiple_faces then
        (let m = l_multiple_face_count l + 1;
             l1 = l\<lparr>l_multiple_face_count := m\<rparr>;
             l2 = (if m \<ge> 2
                   then l1\<lparr>should_terminate := True,
                          violation_type := Some ''MULTIPLE_FACES_DETECTED'',
                          l_message := Terminated_multiple_faces_twice\<rparr>
                   else l1\<lparr>l_message := Warning_multiple_faces\<rparr>)
         in (l2, s\<lparr>multiple_face_count := Some m, no_face_count := Some 0\<rparr>))
      else
        (let n = l_no_face_count l + 1;
             l1 = l\<lparr>l_no_face_count := n\<rparr>
         in if n \<ge> 5 then
              (l1\<lparr>should_terminate := True,
                  violation_type := Some ''NO_FACE_DETECTED_FOR_5_CHECKS'',
                  l_message := Terminated_face_lost_5_seconds\<rparr>, s)
            else if n = 1 then
              (let w = l_no_face_warning_count l + 1;
                   l2 = l1\<lparr>l_no_face_warning_count := w\<rparr>
               in if w \<ge> 5 then
                    (l2\<lparr>should_terminate := True,
                        violation_type := Some ''NO_FACE_DETECTED_5_WARNINGS'',
                        l_message := Terminated_5_total_warnings\<rparr>, s)
                  else (l2\<lparr>l_message := Warning_face_lost w (5 - n)\<rparr>, s))
            else
              (l1\<lparr>l_message := Warning_face_lost (l_no_face_warning_count l) (5 - n)\<rparr>, s)))"

text \<open>The block "Update session data": the three locals are stored, whatever the branch.\<close>

definition update_session_data :: "tick_locals \<Rightarrow> session \<Rightarrow> session" where
  "update_session_data l s =
     s\<lparr>no_face_count := Some (l_no_face_count l),
       no_face_warning_count := Some (l_no_face_warning_count l),
       multiple_face_count := Some (l_multiple_face_count l)\<rparr>"

datatype face_response =
    is_Failure: Failure nat message
  | is_Checked: Checked (face_detected: bool) (message: message) (terminate: bool)
            (shown_no_face_count: int) (shown_multiple_face_count: int)
            (shown_no_face_warning_count: int)

definition api_check_face ::
  "bool \<Rightarrow> (string \<Rightarrow> analysis) \<Rightarrow> http_outcome \<Rightarrow> int \<Rightarrow> session \<Rightarrow> termination_row list
     \<Rightarrow> face_request \<Rightarrow> face_response \<times> session \<times> termination_row list" where
  "api_check_face DEEPFACE_AVAILABLE sensor reply now s ledger data =
     (if \<not> truthy (student_logged_in s) then
        (Failure 401 Authentication_required, s, ledger)
      else if \<not> DEEPFACE_AVAILABLE then
        (Checked True Proctoring_ON_Mock False 0 0 0,
         s\<lparr>no_face_count := Some 0, multiple_face_count := Some 0,
           no_face_warning_count := Some 0\<rparr>, ledger)
      else if base64_img data = [] then
        (Failure 400 No_image_data_received, s, ledger)
      else
        (let (face_detected, multiple_faces) = classify (sensor (base64_img data));
             l0 = \<lparr>l_no_face_count = get0 (no_face_count s),
                   l_multiple_face_count = get0 (multiple_face_count s),
                   l_no_face_warning_count = get0 (no_face_warning_count s),
                   should_terminate = False, violation_type = None,
                   l_message = Face_Detected\<rparr>
         in if truthy (is_pre_check data) then
              (Checked face_detected Face_Detected False (get0 (no_face_count s))
                 (get0 (multiple_face_count s)) (get0 (no_face_warning_count s)), s, ledger)
            else
              (let (l, s1) = decision_table face_detected multiple_faces l0 s;
                   s2 = update_session_data l s1;
                   (s3, ledger') =
                     (if should_terminate l
                      then (pop_login s2,
                            snd (terminate_exam reply now ledger (student_email s) (exam_id s)
                                   (violation_type l)
                                   (case current_score data of None \<Rightarrow> 0 | Some c \<Rightarrow> c)))
                      else (s2, ledger))
               in (Checked face_detected (l_message l) (should_terminate l)
                     (get0 (no_face_count s3)) (get0 (multiple_face_count s3))
                     (get0 (no_face_warning_count s3)), s3, ledger'))))"

text \<open>The session a successful login creates (test\_login, the block after "2. Validate").\<close>

definition login_session :: "session \<Rightarrow> string \<Rightarrow> string \<Rightarrow> session" where
  "login_session s email eid =
     s\<lparr>student_logged_in := Some True, student_email := Some email, exam_id := Some eid,
       no_face_count := Some 0, multiple_face_count := Some 0,
       no_face_warning_count := Some 0\<rparr>"

text \<open>A run of in-exam ticks: the session and ledger of each tick feed the next.\<close>

fun run_ticks ::
  "bool \<Rightarrow> (string \<Rightarrow> analysis) \<Rightarrow> http_outcome \<Rightarrow> int \<Rightarrow> session \<Rightarrow> termination_row list
     \<Rightarrow> face_request list \<Rightarrow> session \<times> termination_row list" where
  "run_ticks av sensor reply now s ledger [] = (s, ledger)"
| "run_ticks av sensor reply now s ledger (d # ds) =
     (case api_check_face av sensor reply now s ledger d of
        (_, s', ledger') \<Rightarrow> run_ticks av sensor reply now s' ledger' ds)"

subsection \<open>The other tables of the store\<close>

text \<open>
  The credential table is read through one query only: the rows of an (email, exam) pair,
  newest first, one row. The model keeps the answer of that query for every pair.
\<close>

record credential =
  generatedPassword :: "string option"

record result_row =
  r_applicantEmail :: "string option"
  r_examId :: "string option"
  r_applicationId :: "string option"
  score :: rat
  totalQuestions :: nat
  submissionTime :: int

record exam_row =
  examTitle :: "string option"
  startDateTime :: "string option"
  endDateTime :: "string option"
  testDuration :: "int option"
  applicationId :: "string option"

record question =
  q_objectId :: string
  q_examId :: string
  correctAnswer :: string

record backend =
  exam_login :: "string \<Rightarrow> string \<Rightarrow> credential option"
  ExamTerminations :: "termination_row list"
  ExamResults :: "result_row list"
  Exams :: "string \<Rightarrow> exam_row option"
  Questions :: "question list"

text \<open>How the store answers each of the calls one request can make.\<close>

record replies =
  termination_reply :: http_outcome
  credential_reply :: http_outcome
  result_reply :: http_outcome
  exam_reply :: http_outcome
  question_reply :: http_outcome
  write_reply :: http_outcome

definition get_login_credential ::
  "http_outcome \<Rightarrow> (string \<Rightarrow> string \<Rightarrow> credential option) \<Rightarrow> string \<Rightarrow> string
     \<Rightarrow> credential option" where
  "get_login_credential reply table email eid =
     (case reply of OK200 \<Rightarrow> table email eid | _ \<Rightarrow> None)"

record exam_paper =
  p_examId :: string
  p_examTitle :: "string option"
  p_startDateTime :: "string option"
  p_endDateTime :: "string option"
  p_testDuration :: "int option"
  questions :: "question list"
  p_applicationId :: "string option"

text \<open>
  The exam is fetched by its id, so a missing exam is a status other than 200. A question
  query that answers another status gives no questions; one that raises is caught by the
  outer \<open>except\<close>.
\<close>

definition get_exam_paper_by_exam_id ::
  "http_outcome \<Rightarrow> http_outcome \<Rightarrow> backend \<Rightarrow> string \<Rightarrow> exam_paper option" where
  "get_exam_paper_by_exam_id ereply qreply db eid =
     (case ereply of
        OK200 \<Rightarrow>
          (case Exams db eid of
             None \<Rightarrow> None
           | Some exam_data \<Rightarrow>
               (case qreply of
                  Raised \<Rightarrow> None
                | _ \<Rightarrow>
                    Some \<lparr>p_examId = eid,
                          p_examTitle = examTitle exam_data,
                          p_startDateTime = startDateTime exam_data,
                          p_endDateTime = endDateTime exam_data,
                          p_testDuration = testDuration exam_data,
                          questions = (if qreply = OK200
                                       then filter (\<lambda>q. q_examId q = eid) (Questions db)
                                       else []),
                          p_applicationId = applicationId exam_data\<rparr>))
      | _ \<Rightarrow> None)"

record result_data =
  rd_email :: "string option"
  rd_exam_id :: string
  rd_application_id :: "string option"
  rd_score :: rat
  rd_total_questions :: nat

text \<open>A write that fails stores nothing.\<close>

definition save_exam_result ::
  "http_outcome \<Rightarrow> int \<Rightarrow> result_row list \<Rightarrow> result_data \<Rightarrow> bool \<times> result_row list" where
  "save_exam_result reply now table rd =
     (case reply of
        OK200 \<Rightarrow>
          (True, table @
             [\<lparr>r_applicantEmail = rd_email rd, r_examId = Some (rd_exam_id rd),
               r_applicationId = rd_application_id rd, score = rd_score rd,
               totalQuestions = rd_total_questions rd, submissionTime = now\<rparr>])
      | _ \<Rightarrow> (False, table))"

definition check_if_result_exists ::
  "http_outcome \<Rightarrow> result_row list \<Rightarrow> string option \<Rightarrow> string \<Rightarrow> bool" where
  "check_if_result_exists reply table email eid =
     (case reply of
        OK200 \<Rightarrow>
          0 < length (filter (\<lambda>r. r_applicantEmail r = Some (py_str email)
                                  \<and> r_examId r = Some eid) table)
      | _ \<Rightarrow> False)"

subsection \<open>Pages, flashed messages and the login guard\<close>

datatype page =
    Redirect_test_login
  | Redirect_pre_exam_check
  | Redirect_exam_finished
  | Redirect_start_exam
  | Login_view
  | Pre_check_view
  | Instructions_view
  | Exam_view
  | Exam_finished_view

datatype flash =
    Please_log_in
  | Not_authorized_for_this_exam
  | Access_has_been_terminated
  | All_fields_are_required
  | Permanently_terminated
  | Login_successful
  | Invalid_credentials
  | Already_submitted
  | Exam_paper_not_found
  | Exam_currently_closed
  | Exam_data_missing
  | Successfully_submitted
  | Database_error

text \<open>
  A response is the message flashed, if any, and the page; flashed messages that differ
  only in their wording from one handler to the next share a constructor.
\<close>

type_synonym outcome = "flash option \<times> page"

text \<open>
  The decorator \<open>student_exam_required\<close>: \<open>Some\<close> is the response it sends itself,
  with the session it leaves; \<open>None\<close> lets the decorated handler run.
\<close>

definition student_exam_required ::
  "http_outcome \<Rightarrow> termination_row list \<Rightarrow> session \<Rightarrow> string \<Rightarrow> (outcome \<times> session) option" where
  "student_exam_required reply ledger s eid =
     (if \<not> truthy (student_logged_in s) then
        Some ((Some Please_log_in, Redirect_test_login), s)
      else if exam_id s \<noteq> Some eid then
        Some ((Some Not_authorized_for_this_exam, Redirect_test_login), pop_login s)
      else if check_active_termination reply ledger (student_email s) eid then
        Some ((Some Access_has_been_terminated, Redirect_exam_finished), session_clear)
      else None)"

subsection \<open>Login (test\_login)\<close>

datatype http_method = GET | POST

record login_form =
  f_email :: "string option"
  f_password :: "string option"
  f_exam_id :: "string option"

text \<open>\<open>not v\<close> for a form field: absent or empty.\<close>

definition blank :: "string option \<Rightarrow> bool" where
  "blank v = (case v of None \<Rightarrow> True | Some x \<Rightarrow> x = [])"

definition test_login ::
  "replies \<Rightarrow> backend \<Rightarrow> session \<Rightarrow> string \<Rightarrow> http_method \<Rightarrow> login_form \<Rightarrow> outcome \<times> session" where
  "test_login rp db s eid method form =
     (let is_placeholder = (eid = ''ENTER_YOUR_ID'') in
      if truthy (student_logged_in s) \<and> exam_id s = Some eid \<and> \<not> is_placeholder then
        ((None, Redirect_pre_exam_check), s)
      else if method = POST then
        (if blank (f_exam_id form) \<or> blank (f_email form) \<or> blank (f_password form) then
           ((Some All_fields_are_required, Login_view), s)
         else
           (let email = py_str (f_email form);
                password = py_str (f_password form);
                login_exam_id = py_str (f_exam_id form)
            in if check_active_termination (termination_reply rp) (ExamTerminations db)
                    (Some email) login_exam_id then
                 ((Some Permanently_terminated, Redirect_exam_finished), s)
               else
                 (case get_login_credential (credential_reply rp) (exam_login db)
                         email login_exam_id of
                    Some cred \<Rightarrow>
                      if generatedPassword cred = Some password then
                        ((Some Login_successful, Redirect_pre_exam_check),
                         login_session s email login_exam_id)
                      else ((Some Invalid_credentials, Login_view), s)
                  | None \<Rightarrow> ((Some Invalid_credentials, Login_view), s))))
      else ((None, Login_view), s))"

subsection \<open>The exam window\<close>

text \<open>
  A parsed timestamp is an instant, with or without a time zone; Python refuses to compare
  one of each (\<open>TypeError\<close>). \<open>isoparse\<close> belongs to a library, so it is a parameter:
  \<open>None\<close> is the text it rejects. A missing timestamp is rejected too.
\<close>

record datetime =
  instant :: int
  tz_aware :: bool

definition dt_le :: "datetime \<Rightarrow> datetime \<Rightarrow> bool option" where
  "dt_le a b = (if tz_aware a = tz_aware b then Some (instant a \<le> instant b) else None)"

definition parsed :: "(string \<Rightarrow> datetime option) \<Rightarrow> string option \<Rightarrow> datetime option" where
  "parsed isoparse v = (case v of None \<Rightarrow> None | Some text \<Rightarrow> isoparse text)"

text \<open>The body of the \<open>try\<close>: \<open>None\<close> when anything in it raises.\<close>

definition window_check ::
  "(string \<Rightarrow> datetime option) \<Rightarrow> int \<Rightarrow> exam_paper \<Rightarrow> bool option" where
  "window_check isoparse now paper =
     (case parsed isoparse (p_startDateTime paper) of
        None \<Rightarrow> None
      | Some start_time \<Rightarrow>
          (case parsed isoparse (p_endDateTime paper) of
             None \<Rightarrow> None
           | Some end_time \<Rightarrow>
               (let now_time = \<lparr>instant = now, tz_aware = True\<rparr> in
                case dt_le start_time now_time of
                  None \<Rightarrow> None
                | Some False \<Rightarrow> Some False
                | Some True \<Rightarrow> dt_le now_time end_time)))"

text \<open>The \<open>try\<close> with its \<open>except Exception\<close>; the three gated pages repeat it verbatim.\<close>

definition is_exam_open ::
  "(string \<Rightarrow> datetime option) \<Rightarrow> int \<Rightarrow> exam_paper \<Rightarrow> bool" where
  "is_exam_open isoparse now paper =
     (case window_check isoparse now paper of None \<Rightarrow> True | Some b \<Rightarrow> b)"

subsection \<open>The gated pages\<close>

definition pre_exam_check ::
  "(string \<Rightarrow> datetime option) \<Rightarrow> int \<Rightarrow> replies \<Rightarrow> backend \<Rightarrow> session \<Rightarrow> string
     \<Rightarrow> outcome \<times> session" where
  "pre_exam_check isoparse now rp db s eid =
     (case student_exam_required (termination_reply rp) (ExamTerminations db) s eid of
        Some refused \<Rightarrow> refused
      | None \<Rightarrow>
          if check_if_result_exists (result_reply rp) (ExamResults db) (student_email s) eid
          then ((Some Already_submitted, Redirect_exam_finished), s)
          else
            (case get_exam_paper_by_exam_id (exam_reply rp) (question_reply rp) db eid of
               None \<Rightarrow> ((Some Exam_paper_not_found, Redirect_test_login), s)
             | Some paper \<Rightarrow>
                 if \<not> is_exam_open isoparse now paper
                 then ((Some Exam_currently_closed, Redirect_exam_finished), s)
                 else ((None, Pre_check_view), s)))"

definition exam_instructions ::
  "(string \<Rightarrow> datetime option) \<Rightarrow> int \<Rightarrow> replies \<Rightarrow> backend \<Rightarrow> session \<Rightarrow> string
     \<Rightarrow> outcome \<times> session" where
  "exam_instructions isoparse now rp db s eid =
     (case student_exam_required (termination_reply rp) (ExamTerminations db) s eid of
        Some refused \<Rightarrow> refused
      | None \<Rightarrow>
          (case get_exam_paper_by_exam_id (exam_reply rp) (question_reply rp) db eid of
             None \<Rightarrow> ((Some Exam_paper_not_found, Redirect_test_login), s)
           | Some paper \<Rightarrow>
               if check_if_result_exists (result_reply rp) (ExamResults db) (student_email s) eid
               then ((Some Already_submitted, Redirect_exam_finished), s)
               else if \<not> is_exam_open isoparse now paper
               then ((Some Exam_currently_closed, Redirect_exam_finished), s)
               else ((None, Instructions_view), s)))"

definition start_exam ::
  "(string \<Rightarrow> datetime option) \<Rightarrow> int \<Rightarrow> replies \<Rightarrow> backend \<Rightarrow> session \<Rightarrow> string
     \<Rightarrow> outcome \<times> session" where
  "start_exam isoparse now rp db s eid =
     (case student_exam_required (termination_reply rp) (ExamTerminations db) s eid of
        Some refused \<Rightarrow> refused
      | None \<Rightarrow>
          if check_if_result_exists (result_reply rp) (ExamResults db) (student_email s) eid
          then ((Some Already_submitted, Redirect_exam_finished), s)
          else
            (case get_exam_paper_by_exam_id (exam_reply rp) (question_reply rp) db eid of
               None \<Rightarrow> ((Some Exam_paper_not_found, Redirect_test_login), s)
             | Some paper \<Rightarrow>
                 if questions paper = []
                 then ((Some Exam_paper_not_found, Redirect_test_login), s)
                 else if \<not> is_exam_open isoparse now paper
                 then ((Some Exam_currently_closed, Redirect_exam_finished), s)
                 else ((None, Exam_view), s)))"

subsection \<open>Submission and scoring (submit\_exam)\<close>

text \<open>
  \<open>correct_answers\<close> is a dictionary keyed by question id: an id that occurs twice is one
  key, holding the answer of its last question. The loop runs once per key.
\<close>

definition correct_answers :: "question list \<Rightarrow> string \<Rightarrow> string option" where
  "correct_answers qs = map_of (rev (map (\<lambda>q. (q_objectId q, correctAnswer q)) qs))"

definition raw_score :: "question list \<Rightarrow> (string \<Rightarrow> string option) \<Rightarrow> nat" where
  "raw_score qs form =
     length (filter (\<lambda>q_id. \<not> blank (form q_id) \<and> form q_id = correct_answers qs q_id)
               (remdups (map q_objectId qs)))"

text \<open>
  Python's \<open>round(x, 2)\<close>, on exact rationals: to the nearest hundredth, a tie to the even
  one. The floats of the source are read as the rationals they stand for.
\<close>

definition py_round2 :: "rat \<Rightarrow> rat" where
  "py_round2 x =
     (let y = x * 100; f = \<lfloor>y\<rfloor>; d = y - of_int f
      in of_int (if d < 1 / 2 then f else if d > 1 / 2 then f + 1
                 else if even f then f else f + 1) / 100)"

definition percentage_score :: "nat \<Rightarrow> nat \<Rightarrow> rat" where
  "percentage_score raw total_questions =
     (if total_questions > 0
      then py_round2 ((of_nat raw / of_nat total_questions) * 100)
      else 0)"

definition submit_exam ::
  "int \<Rightarrow> replies \<Rightarrow> backend \<Rightarrow> session \<Rightarrow> string \<Rightarrow> (string \<Rightarrow> string option)
     \<Rightarrow> outcome \<times> session \<times> backend" where
  "submit_exam now rp db s eid form =
     (case student_exam_required (termination_reply rp) (ExamTerminations db) s eid of
        Some (out, s') \<Rightarrow> (out, s', db)
      | None \<Rightarrow>
          if check_if_result_exists (result_reply rp) (ExamResults db) (student_email s) eid
          then ((Some Already_submitted, Redirect_exam_finished), s, db)
          else
            (case get_exam_paper_by_exam_id (exam_reply rp) (question_reply rp) db eid of
               None \<Rightarrow> ((Some Exam_data_missing, Redirect_exam_finished), s, db)
             | Some paper \<Rightarrow>
                 if questions paper = []
                 then ((Some Exam_data_missing, Redirect_exam_finished), s, db)
                 else
                   (let total_questions = length (questions paper);
                        raw = raw_score (questions paper) form;
                        rd = \<lparr>rd_email = student_email s, rd_exam_id = eid,
                              rd_application_id = p_applicationId paper,
                              rd_score = percentage_score raw total_questions,
                              rd_total_questions = total_questions\<rparr>;
                        (saved, table) = save_exam_result (write_reply rp) now (ExamResults db) rd
                    in if saved
                       then ((Some Successfully_submitted, Exam_finished_view), pop_all s,
                             db\<lparr>ExamResults := table\<rparr>)
                       else ((Some Database_error, Redirect_start_exam), s, db))))"

section \<open>The administrator's restore action (app.py)\<close>

text \<open>
  \<open>remove_termination_status\<close> updates one row, named by its object id, with a PUT of
  the two columns \<open>is_active\<close> and \<open>removed_at\<close>; a row that does not exist is an error
  status.
\<close>

definition remove_termination_status ::
  "http_outcome \<Rightarrow> int \<Rightarrow> termination_row list \<Rightarrow> nat \<Rightarrow> bool \<times> termination_row list" where
  "remove_termination_status reply now ledger termination_object_id =
     (if reply = OK200 \<and> filter (\<lambda>r. t_objectId r = termination_object_id) ledger \<noteq> []
      then (True, map (\<lambda>r. if t_objectId r = termination_object_id
                            then r\<lparr>is_active := Some False, removed_at := Some now\<rparr>
                            else r) ledger)
      else (False, ledger))"

section \<open>Examples\<close>

text \<open>
  A detector for the examples: the payload names what the camera shows.
\<close>

definition example_sensor :: "string \<Rightarrow> analysis" where
  "example_sensor img =
     (if img = ''two'' then Detections [Some (9 / 10), Some (95 / 100)]
      else if img = ''one'' then Detections [Some (9 / 10), Some (1 / 2), None]
      else if img = ''broken'' then Analysis_raised
      else Detections [])"

definition tick :: "string \<Rightarrow> face_request" where
  "tick img = \<lparr>image_data = Some (''data:image/jpeg;base64,'' @ img),
               is_pre_check = Some False, current_score = Some 3\<rparr>"

definition fresh_login :: session where
  "fresh_login = login_session session_clear ''ann@example.org'' ''EXAM1''"

text \<open>
  A small store: one exam with three questions and a window whose end is not a date, one
  exam without questions, and one credential.
\<close>

definition example_isoparse :: "string \<Rightarrow> datetime option" where
  "example_isoparse text =
     (if text = ''2026-01-01T09:00:00+00:00'' then Some \<lparr>instant = 100, tz_aware = True\<rparr>
      else if text = ''2026-01-01T12:00:00+00:00'' then Some \<lparr>instant = 200, tz_aware = True\<rparr>
      else if text = ''2026-01-01T12:00:00'' then Some \<lparr>instant = 200, tz_aware = False\<rparr>
      else None)"

definition example_exams :: "string \<Rightarrow> exam_row option" where
  "example_exams eid =
     (if eid = ''EXAM1'' then
        Some \<lparr>examTitle = Some ''Aptitude'', startDateTime = Some ''2026-01-01T09:00:00+00:00'',
              endDateTime = Some ''soon'', testDuration = Some 30,
              applicationId = Some ''APP1''\<rparr>
      else if eid = ''EXAM2'' then
        Some \<lparr>examTitle = Some ''Timed'', startDateTime = Some ''2026-01-01T09:00:00+00:00'',
              endDateTime = Some ''2026-01-01T12:00:00+00:00'', testDuration = Some 30,
              applicationId = Some ''APP2''\<rparr>
      else if eid = ''EXAM0'' then
        Some \<lparr>examTitle = Some ''Empty'', startDateTime = None, endDateTime = None,
              testDuration = None, applicationId = None\<rparr>
      else None)"

definition example_credentials :: "string \<Rightarrow> string \<Rightarrow> credential option" where
  "example_credentials email eid =
     (if email = ''ann@example.org'' \<and> (eid = ''EXAM1'' \<or> eid = ''EXAM0'' \<or> eid = ''EXAM2'')
      then Some \<lparr>generatedPassword = Some ''s3cret''\<rparr> else None)"

definition example_questions :: "question list" where
  "example_questions =
     [\<lparr>q_objectId = ''Q1'', q_examId = ''EXAM1'', correctAnswer = ''A''\<rparr>,
      \<lparr>q_objectId = ''Q2'', q_examId = ''EXAM1'', correctAnswer = ''B''\<rparr>,
      \<lparr>q_objectId = ''Q3'', q_examId = ''EXAM1'', correctAnswer = ''C''\<rparr>,
      \<lparr>q_objectId = ''Q4'', q_examId = ''EXAM2'', correctAnswer = ''D''\<rparr>]"

definition example_db :: backend where
  "example_db =
     \<lparr>exam_login = example_credentials, ExamTerminations = [], ExamResults = [],
      Exams = example_exams, Questions = example_questions\<rparr>"

definition all_ok :: replies where
  "all_ok =
     \<lparr>termination_reply = OK200, credential_reply = OK200, result_reply = OK200,
      exam_reply = OK200, question_reply = OK200, write_reply = OK200\<rparr>"

definition example_answers :: "string \<Rightarrow> string option" where
  "example_answers q_id =
     (if q_id = ''Q1'' then Some ''A'' else if q_id = ''Q2'' then Some ''C'' else None)"

definition ann_login :: login_form where
  "ann_login = \<lparr>f_email = Some ''ann@example.org'', f_password = Some ''s3cret'',
                f_exam_id = Some ''EXAM1''\<rparr>"

text \<open>The ledger after a face check has terminated the example session.\<close>

definition blocked_ledger :: "termination_row list" where
  "blocked_ledger =
     snd (run_ticks True example_sensor OK200 7 fresh_login [] [tick ''two'', tick ''two''])"

definition exam1_paper :: exam_paper where
  "exam1_paper = \<lparr>p_examId = ''EXAM1'', p_examTitle = Some ''Aptitude'',
     p_startDateTime = Some ''2026-01-01T09:00:00+00:00'', p_endDateTime = Some ''soon'',
     p_testDuration = Some 30,
     questions = [\<lparr>q_objectId = ''Q1'', q_examId = ''EXAM1'', correctAnswer = ''A''\<rparr>,
      \<lparr>q_objectId = ''Q2'', q_examId = ''EXAM1'', correctAnswer = ''B''\<rparr>,
      \<lparr>q_objectId = ''Q3'', q_examId = ''EXAM1'', correctAnswer = ''C''\<rparr>],
     p_applicationId = Some ''APP1''\<rparr>"

definition exam2_login :: session where
  "exam2_login = login_session session_clear ''ann@example.org'' ''EXAM2''"


text \<open>The store once the example session has handed in its answers.\<close>

definition submitted_db :: backend where
  "submitted_db =
     example_db\<lparr>ExamResults :=
       [\<lparr>r_applicantEmail = Some ''ann@example.org'', r_examId = Some ''EXAM1'',
         r_applicationId = Some ''APP1'', score = 3333 / 100, totalQuestions = 3,
         submissionTime = 7\<rparr>]\<rparr>"

section \<open>Evaluating the examples\<close>

lemmas tick_eval =
  api_check_face_def base64_img_def tick_def example_sensor_def classify_def faces_seen_def
  detected_faces_count_def decision_table_def update_session_data_def pop_login_def get0_def
  truthy_def terminate_exam_def fresh_login_def login_session_def session_clear_def Let_def

lemmas store_eval =
  example_db_def example_exams_def example_credentials_def example_questions_def all_ok_def
  example_answers_def ann_login_def example_isoparse_def
  student_exam_required_def check_active_termination_def check_if_result_exists_def
  get_exam_paper_by_exam_id_def get_login_credential_def py_str_def blank_def

lemma blocked_ledger_eq:
  "blocked_ledger =
     [\<lparr>t_objectId = 0, t_applicantEmail = Some ''ann@example.org'', t_examId = Some ''EXAM1'',
       terminationReason = Some ''MULTIPLE_FACES_DETECTED'', currentScore = 3,
       terminationTime = 7, isBlocked = Some True, is_active = None, removed_at = None\<rparr>]"
  by (simp add: blocked_ledger_def tick_eval)

lemma exam1_fetch:
  "get_exam_paper_by_exam_id (exam_reply all_ok) (question_reply all_ok) example_db ''EXAM1''
     = Some exam1_paper"
  by (simp add: store_eval exam1_paper_def)

lemma exam1_gate:
  "student_exam_required (termination_reply all_ok) (ExamTerminations example_db) fresh_login ''EXAM1'' = None"
  by (simp add: store_eval fresh_login_def login_session_def session_clear_def truthy_def)

lemma exam1_fresh:
  "\<not> check_if_result_exists (result_reply all_ok) (ExamResults example_db)
        (student_email fresh_login) ''EXAM1''"
  by (simp add: store_eval)




section \<open>Properties of the face check\<close>

lemma classify_faces: "classify a = (faces_seen a = 1, faces_seen a > 1)"
  by (simp add: classify_def faces_seen_def split: analysis.splits)



text \<open>
  C2, as the code has it. On an in-exam tick that sees no face, \<open>multiple_face_count\<close>
  keeps the value it had before the tick: the no-face branch does not touch it.
\<close>

theorem zero_face_tick_keeps_multiple_face_count:
  assumes "truthy (student_logged_in s)" and "base64_img data \<noteq> []"
    and "\<not> truthy (is_pre_check data)"
    and "faces_seen (sensor (base64_img data)) = 0"
  shows "multiple_face_count (fst (snd (api_check_face True sensor reply now s ledger data)))
         = Some (get0 (multiple_face_count s))"
  using assms
  by (auto simp: api_check_face_def classify_faces decision_table_def update_session_data_def
      pop_login_def get0_def Let_def split: if_splits)

theorem zero_face_tick_keeps_multiple_face_count_witness:
  "multiple_face_count (fst (snd (api_check_face True example_sensor OK200 7
      (fresh_login\<lparr>multiple_face_count := Some 1\<rparr>) [] (tick ''broken'')))) = Some 1"
proof -
  have a: "truthy (student_logged_in (fresh_login\<lparr>multiple_face_count := Some 1\<rparr>))"
    by (simp add: tick_eval)
  have b: "base64_img (tick ''broken'') \<noteq> []" by (simp add: tick_eval)
  have c: "\<not> truthy (is_pre_check (tick ''broken''))" by (simp add: tick_eval)
  have k: "faces_seen (example_sensor (base64_img (tick ''broken''))) = 0"
    by (simp add: tick_eval)
  from zero_face_tick_keeps_multiple_face_count
    [where sensor = example_sensor and reply = OK200 and now = 7 and ledger = "[]", OF a b c k]
  show ?thesis
    by (simp add: get0_def fresh_login_def login_session_def)
qed

text \<open>
  C2, as stated, fails: after a tick with two faces and a tick with none, both from a fresh
  login, \<open>multiple_face_count\<close> is 1, not 0.
\<close>

theorem zero_face_tick_resets_multiple_face_count_counterexample:
  "faces_seen (example_sensor (base64_img (tick ''none''))) = 0 \<and>
   multiple_face_count
     (fst (run_ticks True example_sensor OK200 7 fresh_login [] [tick ''two'', tick ''none'']))
   = Some 1"
  by (simp add: tick_eval)

text \<open>
  What does hold of the counters on every request while the detector is available: none
  becomes negative, and \<open>no_face_warning_count\<close> never goes down, goes up by at most 1, and
  only on a tick without a face that leaves \<open>no_face_count\<close> at 1.
\<close>

lemma tick_counters:
  assumes "api_check_face True sensor reply now s ledger data = (resp, s', ledger')"
  shows "(0 \<le> get0 (no_face_count s) \<longrightarrow> 0 \<le> get0 (no_face_count s'))
       \<and> (0 \<le> get0 (multiple_face_count s) \<longrightarrow> 0 \<le> get0 (multiple_face_count s'))
       \<and> get0 (no_face_warning_count s) \<le> get0 (no_face_warning_count s')
       \<and> get0 (no_face_warning_count s') \<le> get0 (no_face_warning_count s) + 1
       \<and> (get0 (no_face_warning_count s') \<noteq> get0 (no_face_warning_count s) \<longrightarrow>
            faces_seen (sensor (base64_img data)) = 0 \<and> get0 (no_face_count s') = 1)"
  using assms
  by (auto simp: api_check_face_def classify_faces decision_table_def update_session_data_def
      pop_login_def get0_def Let_def split: if_splits)

text \<open>
  C6. The counters are to be 0 right after a tick that sees exactly one face. The branch for
  that tick stores 0 for both, and the block "Update session data" then stores the values
  read at the start of the request over them: after a tick with no face and a tick with one
  face, \<open>no_face_count\<close> is still 1; after a tick with two faces and a tick with one face,
  \<open>multiple_face_count\<close> is still 1.
\<close>

theorem single_face_tick_leaves_counters:
  "fst (run_ticks True example_sensor OK200 7 fresh_login [] [tick ''none'', tick ''one''])
     = fresh_login\<lparr>no_face_count := Some 1, no_face_warning_count := Some 1\<rparr>
   \<and> fst (run_ticks True example_sensor OK200 7 fresh_login [] [tick ''two'', tick ''one''])
     = fresh_login\<lparr>multiple_face_count := Some 1\<rparr>"
  by (simp add: tick_eval)

text \<open>
  C8. Without the detector, a tick of a logged-in session answers "face detected", does not
  terminate, writes nothing to the ledger and stores 0 in all three counters, whatever the
  request body and the counters before.
\<close>

theorem degraded_mode_tick:
  assumes "truthy (student_logged_in s)"
  shows "api_check_face False sensor reply now s ledger data =
           (Checked True Proctoring_ON_Mock False 0 0 0,
            s\<lparr>no_face_count := Some 0, multiple_face_count := Some 0,
              no_face_warning_count := Some 0\<rparr>, ledger)"
  using assms by (simp add: api_check_face_def)

theorem degraded_mode_tick_witness:
  "api_check_face False example_sensor OK200 7
     (fresh_login\<lparr>no_face_count := Some 4, multiple_face_count := Some 1,
                   no_face_warning_count := Some 4\<rparr>) [] (tick ''none'') =
   (Checked True Proctoring_ON_Mock False 0 0 0, fresh_login, [])"
proof -
  have a: "truthy (student_logged_in (fresh_login\<lparr>no_face_count := Some 4,
             multiple_face_count := Some 1, no_face_warning_count := Some 4\<rparr>))"
    by (simp add: tick_eval)
  from degraded_mode_tick [OF a] show ?thesis
    by (simp add: fresh_login_def login_session_def session_clear_def)
qed

lemma base64_img_absent: "image_data data = None \<Longrightarrow> base64_img data = []"
  by (simp add: base64_img_def)

lemma base64_img_bare_prefix:
  "image_data data = Some ''data:image/jpeg;base64,'' \<Longrightarrow> base64_img data = []"
  by (simp add: base64_img_def)

text \<open>
  C9. With the detector available, a face check of a logged-in session whose payload is
  empty after the \<open>base64,\<close> prefix is answered with status 400, and session and ledger
  stay as they were: no counter moves, nothing is terminated.
\<close>

theorem empty_image_rejected:
  assumes "truthy (student_logged_in s)" and "base64_img data = []"
  shows "api_check_face True sensor reply now s ledger data =
           (Failure 400 No_image_data_received, s, ledger)"
  using assms by (simp add: api_check_face_def)

theorem empty_image_rejected_witness:
  "api_check_face True example_sensor OK200 7 (fresh_login\<lparr>no_face_count := Some 4\<rparr>) []
     \<lparr>image_data = None, is_pre_check = Some False, current_score = None\<rparr> =
   (Failure 400 No_image_data_received, fresh_login\<lparr>no_face_count := Some 4\<rparr>, [])"
proof -
  have a: "truthy (student_logged_in (fresh_login\<lparr>no_face_count := Some 4\<rparr>))"
    by (simp add: tick_eval)
  have b: "base64_img \<lparr>image_data = None, is_pre_check = Some False, current_score = None\<rparr> = []"
    by (simp add: base64_img_def)
  from empty_image_rejected [OF a b] show ?thesis .
qed

section \<open>Properties of the gated pages\<close>

lemma window_check_closed:
  "window_check isoparse now paper = Some False \<Longrightarrow>
     \<exists>st en. parsed isoparse (p_startDateTime paper) = Some st
           \<and> parsed isoparse (p_endDateTime paper) = Some en
           \<and> \<not> (instant st \<le> now \<and> now \<le> instant en)"
  by (auto simp: window_check_def dt_le_def Let_def split: option.splits bool.splits if_splits)

lemma not_open_closed: "\<not> is_exam_open isoparse now paper \<Longrightarrow> window_check isoparse now paper = Some False"
  by (auto simp: is_exam_open_def split: option.splits)

lemma malformed_open:
  "parsed isoparse (p_startDateTime paper) = None \<or> parsed isoparse (p_endDateTime paper) = None
     \<Longrightarrow> is_exam_open isoparse now paper"
  by (auto simp: is_exam_open_def window_check_def split: option.splits)

text \<open>
  C7. On the three gated pages, once the login guard, the result check and the fetch of the
  paper have passed, a start or end timestamp that is missing or does not parse leaves the
  exam open and the page is shown (the exam page when the paper has questions). A page
  answers "exam closed" only when both timestamps parse and the clock is outside the window.
\<close>

theorem malformed_window_fails_open:
  "(student_exam_required (termination_reply rp) (ExamTerminations db) s eid = None
      \<and> \<not> check_if_result_exists (result_reply rp) (ExamResults db) (student_email s) eid
      \<and> get_exam_paper_by_exam_id (exam_reply rp) (question_reply rp) db eid = Some paper
      \<and> (parsed isoparse (p_startDateTime paper) = None
          \<or> parsed isoparse (p_endDateTime paper) = None)
    \<longrightarrow> is_exam_open isoparse now paper
        \<and> pre_exam_check isoparse now rp db s eid = ((None, Pre_check_view), s)
        \<and> exam_instructions isoparse now rp db s eid = ((None, Instructions_view), s)
        \<and> (questions paper \<noteq> [] \<longrightarrow>
             start_exam isoparse now rp db s eid = ((None, Exam_view), s)))
   \<and> (fst (pre_exam_check isoparse now rp db s eid) = (Some Exam_currently_closed, Redirect_exam_finished)
       \<or> fst (exam_instructions isoparse now rp db s eid) = (Some Exam_currently_closed, Redirect_exam_finished)
       \<or> fst (start_exam isoparse now rp db s eid) = (Some Exam_currently_closed, Redirect_exam_finished)
    \<longrightarrow> (\<exists>paper st en.
           get_exam_paper_by_exam_id (exam_reply rp) (question_reply rp) db eid = Some paper
         \<and> parsed isoparse (p_startDateTime paper) = Some st
         \<and> parsed isoparse (p_endDateTime paper) = Some en
         \<and> \<not> (instant st \<le> now \<and> now \<le> instant en)))"
proof (intro conjI impI)
  assume a: "student_exam_required (termination_reply rp) (ExamTerminations db) s eid = None
      \<and> \<not> check_if_result_exists (result_reply rp) (ExamResults db) (student_email s) eid
      \<and> get_exam_paper_by_exam_id (exam_reply rp) (question_reply rp) db eid = Some paper
      \<and> (parsed isoparse (p_startDateTime paper) = None
          \<or> parsed isoparse (p_endDateTime paper) = None)"
  then have op: "is_exam_open isoparse now paper" by (simp add: malformed_open)
  show "is_exam_open isoparse now paper" by (rule op)
  show "pre_exam_check isoparse now rp db s eid = ((None, Pre_check_view), s)"
    using a op by (simp add: pre_exam_check_def)
  show "exam_instructions isoparse now rp db s eid = ((None, Instructions_view), s)"
    using a op by (simp add: exam_instructions_def)
  assume "questions paper \<noteq> []"
  then show "start_exam isoparse now rp db s eid = ((None, Exam_view), s)"
    using a op by (simp add: start_exam_def)
next
  assume c: "fst (pre_exam_check isoparse now rp db s eid) = (Some Exam_currently_closed, Redirect_exam_finished)
       \<or> fst (exam_instructions isoparse now rp db s eid) = (Some Exam_currently_closed, Redirect_exam_finished)
       \<or> fst (start_exam isoparse now rp db s eid) = (Some Exam_currently_closed, Redirect_exam_finished)"
  then have "\<exists>paper. get_exam_paper_by_exam_id (exam_reply rp) (question_reply rp) db eid = Some paper
       \<and> \<not> is_exam_open isoparse now paper"
    by (auto simp: pre_exam_check_def exam_instructions_def start_exam_def
        student_exam_required_def split: option.splits if_splits)
  then obtain paper where p: "get_exam_paper_by_exam_id (exam_reply rp) (question_reply rp) db eid = Some paper"
    and cl: "\<not> is_exam_open isoparse now paper" by blast
  from window_check_closed [OF not_open_closed [OF cl]] p
  show "\<exists>paper st en.
           get_exam_paper_by_exam_id (exam_reply rp) (question_reply rp) db eid = Some paper
         \<and> parsed isoparse (p_startDateTime paper) = Some st
         \<and> parsed isoparse (p_endDateTime paper) = Some en
         \<and> \<not> (instant st \<le> now \<and> now \<le> instant en)" by blast
qed

theorem malformed_window_fails_open_witness:
  "pre_exam_check example_isoparse 150 all_ok example_db fresh_login ''EXAM1''
     = ((None, Pre_check_view), fresh_login)
   \<and> exam_instructions example_isoparse 150 all_ok example_db fresh_login ''EXAM1''
     = ((None, Instructions_view), fresh_login)
   \<and> start_exam example_isoparse 150 all_ok example_db fresh_login ''EXAM1''
     = ((None, Exam_view), fresh_login)
   \<and> fst (start_exam example_isoparse 50 all_ok example_db exam2_login ''EXAM2'')
     = (Some Exam_currently_closed, Redirect_exam_finished)
   \<and> (\<exists>paper st en.
         get_exam_paper_by_exam_id OK200 OK200 example_db ''EXAM2'' = Some paper
       \<and> parsed example_isoparse (p_startDateTime paper) = Some st
       \<and> parsed example_isoparse (p_endDateTime paper) = Some en
       \<and> \<not> (instant st \<le> 50 \<and> 50 \<le> instant en))"
proof -
  have bad: "parsed example_isoparse (p_endDateTime exam1_paper) = None"
    by (simp add: parsed_def exam1_paper_def example_isoparse_def)
  have q: "questions exam1_paper \<noteq> []" by (simp add: exam1_paper_def)
  have closed: "fst (start_exam example_isoparse 50 all_ok example_db exam2_login ''EXAM2'')
     = (Some Exam_currently_closed, Redirect_exam_finished)"
    by (simp add: start_exam_def store_eval exam2_login_def login_session_def session_clear_def
        truthy_def is_exam_open_def window_check_def parsed_def dt_le_def)
  from malformed_window_fails_open
         [of all_ok example_db fresh_login "''EXAM1''" exam1_paper example_isoparse 150]
       exam1_gate exam1_fresh exam1_fetch bad q
  have first: "pre_exam_check example_isoparse 150 all_ok example_db fresh_login ''EXAM1''
     = ((None, Pre_check_view), fresh_login)
   \<and> exam_instructions example_isoparse 150 all_ok example_db fresh_login ''EXAM1''
     = ((None, Instructions_view), fresh_login)
   \<and> start_exam example_isoparse 150 all_ok example_db fresh_login ''EXAM1''
     = ((None, Exam_view), fresh_login)"
    by simp
  from malformed_window_fails_open
         [of all_ok example_db exam2_login "''EXAM2''" exam1_paper example_isoparse 50] closed
  have "\<exists>paper st en.
         get_exam_paper_by_exam_id OK200 OK200 example_db ''EXAM2'' = Some paper
       \<and> parsed example_isoparse (p_startDateTime paper) = Some st
       \<and> parsed example_isoparse (p_endDateTime paper) = Some en
       \<and> \<not> (instant st \<le> 50 \<and> 50 \<le> instant en)"
    by (simp add: all_ok_def)
  with first closed show ?thesis by blast
qed

section \<open>Properties of the login\<close>

text \<open>
  C3, as the code has it. While the ledger holds a row of the pair with \<open>isBlocked\<close> true
  and the ledger query is answered, a login that fills in all three fields, from a session
  not already logged in to the exam of the page, is refused with the permanent denial,
  whatever the password and the credential table.
\<close>

theorem blocked_login_denied:
  assumes "r \<in> set (ExamTerminations db)"
    and "t_applicantEmail r = Some email" and "t_examId r = Some login_exam_id"
    and "isBlocked r = Some True"
    and "termination_reply rp = OK200"
    and "email \<noteq> []" and "password \<noteq> []" and "login_exam_id \<noteq> []"
    and "\<not> (truthy (student_logged_in s) \<and> exam_id s = Some eid \<and> eid \<noteq> ''ENTER_YOUR_ID'')"
  shows "test_login rp db s eid POST
           \<lparr>f_email = Some email, f_password = Some password, f_exam_id = Some login_exam_id\<rparr>
         = ((Some Permanently_terminated, Redirect_exam_finished), s)"
proof -
  have "filter (\<lambda>r. t_applicantEmail r = Some email \<and> t_examId r = Some login_exam_id
                   \<and> isBlocked r = Some True) (ExamTerminations db) \<noteq> []"
    using assms(1-4) by (auto simp: filter_empty_conv)
  then have "check_active_termination (termination_reply rp) (ExamTerminations db)
               (Some email) login_exam_id"
    using assms(5) by (simp add: check_active_termination_def py_str_def)
  then show ?thesis
    using assms(6-9) by (auto simp: test_login_def blank_def py_str_def Let_def)
qed

theorem blocked_login_denied_witness:
  "test_login all_ok (example_db\<lparr>ExamTerminations := blocked_ledger\<rparr>) session_clear ''EXAM1''
     POST ann_login
   = ((Some Permanently_terminated, Redirect_exam_finished), session_clear)"
proof -
  have "test_login all_ok (example_db\<lparr>ExamTerminations := blocked_ledger\<rparr>) session_clear ''EXAM1''
     POST \<lparr>f_email = Some ''ann@example.org'', f_password = Some ''s3cret'',
                f_exam_id = Some ''EXAM1''\<rparr>
   = ((Some Permanently_terminated, Redirect_exam_finished), session_clear)"
    by (rule blocked_login_denied [where r = "hd blocked_ledger"])
       (simp_all add: blocked_ledger_eq all_ok_def session_clear_def truthy_def)
  then show ?thesis by (simp add: ann_login_def)
qed

text \<open>
  C3, as stated, fails: the ledger holds the blocking row of the pair, the ledger query
  raises, and the login with the issued password succeeds.
\<close>

theorem blocked_login_counterexample:
  "isBlocked (hd blocked_ledger) = Some True
   \<and> t_applicantEmail (hd blocked_ledger) = Some ''ann@example.org''
   \<and> t_examId (hd blocked_ledger) = Some ''EXAM1''
   \<and> test_login (all_ok\<lparr>termination_reply := Raised\<rparr>)
        (example_db\<lparr>ExamTerminations := blocked_ledger\<rparr>) session_clear ''EXAM1'' POST ann_login
      = ((Some Login_successful, Redirect_pre_exam_check), fresh_login)"
  by (simp add: blocked_ledger_eq test_login_def store_eval fresh_login_def login_session_def
      session_clear_def truthy_def)

text \<open>
  The restore action writes \<open>is_active\<close> and \<open>removed_at\<close>; the query of the exam
  application reads \<open>isBlocked\<close>, so its answer is the same before and after.
\<close>

lemma restore_keeps_block:
  "check_active_termination reply (snd (remove_termination_status reply' now ledger oid)) email eid
     = check_active_termination reply ledger email eid"
proof -
  have "filter (\<lambda>r. t_applicantEmail r = Some (py_str email) \<and> t_examId r = Some eid
                   \<and> isBlocked r = Some True)
          (map (\<lambda>r. if t_objectId r = oid
                     then r\<lparr>is_active := Some False, removed_at := Some now\<rparr> else r) ledger)
        = map (\<lambda>r. if t_objectId r = oid
                     then r\<lparr>is_active := Some False, removed_at := Some now\<rparr> else r)
            (filter (\<lambda>r. t_applicantEmail r = Some (py_str email) \<and> t_examId r = Some eid
                   \<and> isBlocked r = Some True) ledger)"
    by (induction ledger) auto
  then show ?thesis
    by (simp add: check_active_termination_def remove_termination_status_def
        split: http_outcome.splits)
qed

lemma restored_login_still_denied:
  "remove_termination_status OK200 9 blocked_ledger 0 =
     (True, [(hd blocked_ledger)\<lparr>is_active := Some False, removed_at := Some 9\<rparr>])
   \<and> fst (test_login all_ok
        (example_db\<lparr>ExamTerminations := snd (remove_termination_status OK200 9 blocked_ledger 0)\<rparr>)
        session_clear ''EXAM1'' POST ann_login)
      = (Some Permanently_terminated, Redirect_exam_finished)"
  by (simp add: blocked_ledger_eq remove_termination_status_def test_login_def store_eval
      session_clear_def truthy_def)

section \<open>Properties of the submission\<close>

text \<open>
  C5. When the result check finds a result of the pair, the submission changes nothing in
  the store and answers with a redirect; past the login guard the answer is "already
  submitted", with the session as it was, before the paper is fetched or anything scored.
\<close>

theorem resubmission_rejected:
  assumes "check_if_result_exists (result_reply rp) (ExamResults db) (student_email s) eid"
  shows "snd (snd (submit_exam now rp db s eid form)) = db
       \<and> (snd (fst (submit_exam now rp db s eid form)) = Redirect_test_login
          \<or> snd (fst (submit_exam now rp db s eid form)) = Redirect_exam_finished)
       \<and> (student_exam_required (termination_reply rp) (ExamTerminations db) s eid = None
            \<longrightarrow> submit_exam now rp db s eid form
                  = ((Some Already_submitted, Redirect_exam_finished), s, db))"
  using assms
  by (auto simp: submit_exam_def student_exam_required_def split: option.splits if_splits)

theorem resubmission_rejected_witness:
  "submit_exam 8 all_ok submitted_db fresh_login ''EXAM1'' example_answers
     = ((Some Already_submitted, Redirect_exam_finished), fresh_login, submitted_db)"
proof -
  have e: "check_if_result_exists (result_reply all_ok) (ExamResults submitted_db)
             (student_email fresh_login) ''EXAM1''"
    by (simp add: submitted_db_def store_eval fresh_login_def login_session_def)
  have g: "student_exam_required (termination_reply all_ok) (ExamTerminations submitted_db)
             fresh_login ''EXAM1'' = None"
    using exam1_gate by (simp add: submitted_db_def)
  from resubmission_rejected [OF e, of 8 example_answers] g show ?thesis by simp
qed

text \<open>
  C10. When a submission reaches the write and the write fails, the answer is the database
  error with a redirect to the exam page, and session and store are as before.
\<close>

theorem failed_write_keeps_session:
  assumes "student_exam_required (termination_reply rp) (ExamTerminations db) s eid = None"
    and "\<not> check_if_result_exists (result_reply rp) (ExamResults db) (student_email s) eid"
    and "get_exam_paper_by_exam_id (exam_reply rp) (question_reply rp) db eid = Some paper"
    and "questions paper \<noteq> []"
    and "write_reply rp \<noteq> OK200"
  shows "submit_exam now rp db s eid form = ((Some Database_error, Redirect_start_exam), s, db)"
  using assms
  by (simp add: submit_exam_def save_exam_result_def Let_def split: http_outcome.splits)

theorem failed_write_keeps_session_witness:
  "submit_exam 7 (all_ok\<lparr>write_reply := Raised\<rparr>) example_db fresh_login ''EXAM1'' example_answers
     = ((Some Database_error, Redirect_start_exam), fresh_login, example_db)"
proof -
  have w: "write_reply (all_ok\<lparr>write_reply := Raised\<rparr>) \<noteq> OK200" by simp
  have q: "questions exam1_paper \<noteq> []" by (simp add: exam1_paper_def)
  from failed_write_keeps_session
         [of "all_ok\<lparr>write_reply := Raised\<rparr>" example_db fresh_login "''EXAM1''" exam1_paper]
       exam1_gate exam1_fresh exam1_fetch q w
  show ?thesis by simp
qed




lemma correct_answers_distinct:
  "distinct (map q_objectId qs) \<Longrightarrow> q \<in> set qs \<Longrightarrow>
     correct_answers qs (q_objectId q) = Some (correctAnswer q)"
  unfolding correct_answers_def
  by (rule map_of_is_SomeI) (auto simp: rev_map [symmetric] distinct_map o_def)

lemma raw_score_distinct:
  assumes "distinct (map q_objectId qs)"
  shows "raw_score qs form =
           length (filter (\<lambda>q. \<not> blank (form (q_objectId q))
                               \<and> form (q_objectId q) = Some (correctAnswer q)) qs)"
proof -
  have "filter (\<lambda>q. \<not> blank (form (q_objectId q))
                     \<and> form (q_objectId q) = correct_answers qs (q_objectId q)) qs
        = filter (\<lambda>q. \<not> blank (form (q_objectId q))
                     \<and> form (q_objectId q) = Some (correctAnswer q)) qs"
    by (rule filter_cong) (auto simp: correct_answers_distinct [OF assms])
  then show ?thesis
    using assms by (simp add: raw_score_def distinct_remdups_id filter_map o_def)
qed

end
